theory Spec2Isabelle
  imports Complex_Main
begin

section \<open>Frontend: the authentication context (AuthContext.jsx)\<close>

subsection \<open>JavaScript values used by the context\<close>

text \<open>
  \<open>localStorage\<close> maps keys to strings; \<open>getItem\<close> of an absent key is \<open>null\<close>,
  modelled as \<open>None\<close>. A property that is only tested or defaulted (\<open>a || d\<close>) is an
  \<open>option\<close>, \<open>None\<close> standing for a missing, \<open>undefined\<close> or \<open>null\<close> one.
\<close>

type_synonym storage = "string \<Rightarrow> string option"

text \<open>
  Where the code tells \<open>undefined\<close> from \<open>null\<close> (conversion to a string, reading a
  property of the value) the three cases are kept apart.
\<close>

datatype 'v nullable = Undefined | Null | Defined 'v

text \<open>The state and the results only record whether a value is there.\<close>

fun nullish_to_none :: "'v nullable \<Rightarrow> 'v option" where
  "nullish_to_none (Defined v) = Some v"
| "nullish_to_none n = None"

text \<open>A missing property reads as \<open>undefined\<close>.\<close>

fun optional :: "'v option \<Rightarrow> 'v nullable" where
  "optional None = Undefined"
| "optional (Some v) = Defined v"

text \<open>JavaScript truthiness of a string-or-null: \<open>null\<close> and the empty string are falsy.\<close>

fun truthy :: "string option \<Rightarrow> bool" where
  "truthy None = False"
| "truthy (Some s) = (s \<noteq> [])"

text \<open>\<open>a || d\<close> for a string-or-undefined \<open>a\<close> and a literal default \<open>d\<close>.\<close>

fun or_default :: "string option \<Rightarrow> string \<Rightarrow> string" where
  "or_default None d = d"
| "or_default (Some s) d = (if s = [] then d else s)"

text \<open>\<open>String(v)\<close>, as \<open>localStorage.setItem\<close> and template strings apply it.\<close>

fun js_to_string :: "string nullable \<Rightarrow> string" where
  "js_to_string Undefined = ''undefined''"
| "js_to_string Null = ''null''"
| "js_to_string (Defined s) = s"

text \<open>
  A thrown value other than \<open>undefined\<close> and \<open>null\<close>, given by what reading its
  \<open>message\<close> yields: a string, or nothing. A promise can also reject with
  \<open>undefined\<close> or \<open>null\<close>, so what a \<open>catch\<close> block receives is a
  \<open>js_error nullable\<close>.
\<close>

datatype js_error = JsError (error_message: "string option")

text \<open>
  The \<open>TypeError\<close> that reading a property of \<open>undefined\<close> or \<open>null\<close> raises (the
  wording of its message is the engine's).
\<close>

definition type_error :: js_error where
  "type_error = JsError (Some ''TypeError: cannot read properties of undefined or null'')"

text \<open>How an awaited promise settles; it may resolve with \<open>undefined\<close> or \<open>null\<close> too.\<close>

datatype 'r settled = Resolved "'r nullable" | Rejected "js_error nullable"

text \<open>The object the functions of \<open>authAPI\<close> resolve with.\<close>

record 'a api_response =
  success :: bool
  token :: "string nullable"
  advisor :: "'a nullable"
  message :: "string option"

text \<open>
  The functions of \<open>authAPI\<close> are defined in \<open>services/api\<close>, outside the files
  modelled here. A call is taken as a parameter: given the browser storage at the
  moment of the call it yields how the promise settles and the storage as the call
  leaves it (code running in the same page can touch \<open>localStorage\<close>).
  The calls of \<open>localStorage\<close>, \<open>toast\<close>, \<open>console\<close> and the state setters are
  taken not to throw.
\<close>

type_synonym 'r api_call = "storage \<Rightarrow> 'r settled \<times> storage"

text \<open>What a caller of \<open>login\<close>, \<open>register\<close> or \<open>logout\<close> gets back.\<close>

datatype 'a auth_result =
  AuthResult (res_success: bool) (res_user: "'a option") (res_message: "string option")

text \<open>How an async function of the context completes: its promise resolves or rejects.\<close>

datatype 'r completion = Returned 'r | Thrown js_error

text \<open>Observable effects besides state and storage, in the order they happen.\<close>

datatype event =
  ApiGetProfile | ApiLogin | ApiRegister | ApiLogout
| ToastSuccess string | ToastError string
| ConsoleError string "js_error nullable"

subsection \<open>The state of the provider\<close>

record 'a auth_state =
  user :: "'a option"
  loading :: bool
  isAuthenticated :: bool
  localStorage :: storage
  events :: "event list"

text \<open>\<open>useState(null)\<close>, \<open>useState(true)\<close>, \<open>useState(false)\<close> over a given storage.\<close>

definition initial_state :: "storage \<Rightarrow> 'a auth_state" where
  "initial_state s =
     \<lparr>user = None, loading = True, isAuthenticated = False, localStorage = s, events = []\<rparr>"

definition setUser :: "'a option \<Rightarrow> 'a auth_state \<Rightarrow> 'a auth_state" where
  "setUser u st = st\<lparr>user := u\<rparr>"

definition setLoading :: "bool \<Rightarrow> 'a auth_state \<Rightarrow> 'a auth_state" where
  "setLoading b st = st\<lparr>loading := b\<rparr>"

definition setIsAuthenticated :: "bool \<Rightarrow> 'a auth_state \<Rightarrow> 'a auth_state" where
  "setIsAuthenticated b st = st\<lparr>isAuthenticated := b\<rparr>"

definition getItem :: "string \<Rightarrow> 'a auth_state \<Rightarrow> string option" where
  "getItem k st = localStorage st k"

definition setItem :: "string \<Rightarrow> string \<Rightarrow> 'a auth_state \<Rightarrow> 'a auth_state" where
  "setItem k v st = st\<lparr>localStorage := (localStorage st)(k := Some v)\<rparr>"

definition removeItem :: "string \<Rightarrow> 'a auth_state \<Rightarrow> 'a auth_state" where
  "removeItem k st = st\<lparr>localStorage := (localStorage st)(k := None)\<rparr>"

definition emit :: "event \<Rightarrow> 'a auth_state \<Rightarrow> 'a auth_state" where
  "emit e st = st\<lparr>events := events st @ [e]\<rparr>"

text \<open>
  \<open>await authAPI.f(...)\<close>: the call is recorded, the storage becomes what the call left,
  and the caller continues with how the promise settled.
\<close>

definition await_api ::
  "event \<Rightarrow> 'r api_call \<Rightarrow> 'a auth_state \<Rightarrow> 'r settled \<times> 'a auth_state" where
  "await_api e call st =
     (let (r, s') = call (localStorage st)
      in (r, (emit e st)\<lparr>localStorage := s'\<rparr>))"

subsection \<open>checkAuthStatus\<close>

text \<open>
  The \<open>try\<close> block fetches the profile only under \<open>token && storedUser\<close>. A response
  with a falsy \<open>success\<close> removes the two keys; so does the \<open>catch\<close> block, which is
  entered when the call rejects and when it resolves with \<open>undefined\<close> or \<open>null\<close>
  (reading \<open>response.success\<close> throws then). The \<open>catch\<close> block does not read the
  error. \<open>finally\<close> sets \<open>loading\<close> to false on every path.
\<close>

definition checkAuthStatus ::
  "'a api_response api_call \<Rightarrow> 'a auth_state \<Rightarrow> 'a auth_state" where
  "checkAuthStatus getProfile st =
     (let token = getItem ''token'' st;
          storedUser = getItem ''user'' st
      in if truthy token \<and> truthy storedUser then
           (case await_api ApiGetProfile getProfile st of
              (Resolved (Defined response), st1) \<Rightarrow>
                if success response then
                  setLoading False
                    (setIsAuthenticated True (setUser (nullish_to_none (advisor response)) st1))
                else
                  setLoading False (removeItem ''user'' (removeItem ''token'' st1))
            | (Resolved nullish, st1) \<Rightarrow>
                setLoading False (removeItem ''user'' (removeItem ''token'' st1))
            | (Rejected error, st1) \<Rightarrow>
                setLoading False (removeItem ''user'' (removeItem ''token'' st1)))
         else setLoading False st)"

subsection \<open>login and register\<close>

text \<open>
  \<open>JSON.stringify\<close> of the advisor object is a parameter \<open>stringify\<close>;
  \<open>JSON.stringify(null)\<close> is the string \<open>null\<close>, and \<open>JSON.stringify(undefined)\<close> is
  \<open>undefined\<close>, which \<open>setItem\<close> stores as the string \<open>undefined\<close>.
\<close>

fun stringify_opt :: "('a \<Rightarrow> string) \<Rightarrow> 'a nullable \<Rightarrow> string" where
  "stringify_opt stringify Undefined = ''undefined''"
| "stringify_opt stringify Null = ''null''"
| "stringify_opt stringify (Defined a) = stringify a"

text \<open>
  The \<open>catch\<close> block of \<open>login\<close> and of \<open>register\<close> (they differ in the label and in
  the fallback text): it logs the error, reads \<open>error.message\<close>, shows the toast and
  returns \<open>{success: false, message}\<close>. When the caught value is \<open>undefined\<close> or
  \<open>null\<close>, reading \<open>error.message\<close> throws inside the block: no toast is shown and,
  after \<open>finally\<close>, the promise rejects.
\<close>

definition catch_block ::
  "string \<Rightarrow> string \<Rightarrow> js_error nullable \<Rightarrow> 'a auth_state
     \<Rightarrow> 'a auth_result completion \<times> 'a auth_state" where
  "catch_block label fallback error st =
     (let st1 = emit (ConsoleError label error) st
      in case error of
           Defined e \<Rightarrow>
             (let msg = or_default (error_message e) fallback;
                  st2 = emit (ToastError msg) st1
              in (Returned (AuthResult False None (Some msg)), setLoading False st2))
         | nullish \<Rightarrow> (Thrown type_error, setLoading False st1))"

text \<open>
  A call that resolves with \<open>undefined\<close> or \<open>null\<close> makes \<open>response.success\<close> throw
  inside \<open>try\<close>; the \<open>catch\<close> block then receives that \<open>TypeError\<close>.
\<close>

definition login ::
  "('a \<Rightarrow> string) \<Rightarrow> ('c \<Rightarrow> 'a api_response api_call) \<Rightarrow> 'c \<Rightarrow> 'a auth_state
     \<Rightarrow> 'a auth_result completion \<times> 'a auth_state" where
  "login stringify api_login credentials st =
     (case await_api ApiLogin (api_login credentials) (setLoading True st) of
        (Resolved (Defined response), st1) \<Rightarrow>
          if success response then
            (let st2 = setItem ''token'' (js_to_string (token response)) st1;
                 st3 = setItem ''user'' (stringify_opt stringify (advisor response)) st2;
                 st4 = setUser (nullish_to_none (advisor response)) st3;
                 st5 = setIsAuthenticated True st4;
                 st6 = emit (ToastSuccess ''Login successful!'') st5
             in (Returned (AuthResult True (nullish_to_none (advisor response)) None),
                 setLoading False st6))
          else
            (let st2 = emit (ToastError (or_default (message response) ''Login failed'')) st1
             in (Returned (AuthResult False None (message response)), setLoading False st2))
      | (Resolved nullish, st1) \<Rightarrow>
          catch_block ''Login error:'' ''Login failed. Please try again.'' (Defined type_error) st1
      | (Rejected error, st1) \<Rightarrow>
          catch_block ''Login error:'' ''Login failed. Please try again.'' error st1)"

definition register ::
  "('a \<Rightarrow> string) \<Rightarrow> ('d \<Rightarrow> 'a api_response api_call) \<Rightarrow> 'd \<Rightarrow> 'a auth_state
     \<Rightarrow> 'a auth_result completion \<times> 'a auth_state" where
  "register stringify api_register userData st =
     (case await_api ApiRegister (api_register userData) (setLoading True st) of
        (Resolved (Defined response), st1) \<Rightarrow>
          if success response then
            (let st2 = setItem ''token'' (js_to_string (token response)) st1;
                 st3 = setItem ''user'' (stringify_opt stringify (advisor response)) st2;
                 st4 = setUser (nullish_to_none (advisor response)) st3;
                 st5 = setIsAuthenticated True st4;
                 st6 = emit (ToastSuccess ''Registration successful!'') st5
             in (Returned (AuthResult True (nullish_to_none (advisor response)) None),
                 setLoading False st6))
          else
            (let st2 = emit (ToastError (or_default (message response) ''Registration failed'')) st1
             in (Returned (AuthResult False None (message response)), setLoading False st2))
      | (Resolved nullish, st1) \<Rightarrow>
          catch_block ''Registration error:'' ''Registration failed. Please try again.''
            (Defined type_error) st1
      | (Rejected error, st1) \<Rightarrow>
          catch_block ''Registration error:'' ''Registration failed. Please try again.'' error st1)"

subsection \<open>logout\<close>

text \<open>
  Both the \<open>try\<close> block and the \<open>catch\<close> block reset \<open>user\<close> and
  \<open>isAuthenticated\<close> and return \<open>{success: true}\<close>; neither calls
  \<open>localStorage.removeItem\<close>, and neither reads the awaited value or the error.
\<close>

definition logout ::
  "'r api_call \<Rightarrow> 'a auth_state \<Rightarrow> 'a auth_result completion \<times> 'a auth_state" where
  "logout api_logout st =
     (case await_api ApiLogout api_logout (setLoading True st) of
        (Resolved response, st1) \<Rightarrow>
          (let st2 = setUser None st1;
               st3 = setIsAuthenticated False st2;
               st4 = emit (ToastSuccess ''Logged out successfully!'') st3
           in (Returned (AuthResult True None None), setLoading False st4))
      | (Rejected error, st1) \<Rightarrow>
          (let st2 = emit (ConsoleError ''Logout error:'' error) st1;
               st3 = setUser None st2;
               st4 = setIsAuthenticated False st3
           in (Returned (AuthResult True None None), setLoading False st4)))"

section \<open>Backend: the Express application (index.js)\<close>

subsection \<open>Requests, errors and JSON responses\<close>

datatype json = JBool bool | JStr string | JNum real

type_synonym json_object = "(string \<times> json) list"

text \<open>
  \<open>res.json(obj)\<close> serialises with \<open>JSON.stringify\<close>, which leaves out every property
  whose value is \<open>undefined\<close>.
\<close>

fun json_props :: "(string \<times> json option) list \<Rightarrow> json_object" where
  "json_props [] = []"
| "json_props ((k, None) # ps) = json_props ps"
| "json_props ((k, Some v) # ps) = (k, v) # json_props ps"

text \<open>A response: status code and JSON body (\<open>None\<close> when nothing is sent as body).\<close>

record response =
  status :: nat
  body :: "json_object option"

text \<open>The value of a top-level field of the JSON body, if the body has it.\<close>

definition field :: "string \<Rightarrow> response \<Rightarrow> json option" where
  "field k r = (case body r of None \<Rightarrow> None | Some b \<Rightarrow> map_of b k)"

datatype media_type = ApplicationJson | FormUrlencoded | OtherMedia

text \<open>
  What the application reads of a request. \<open>http_method\<close> is \<open>req.method\<close>;
  \<open>url\<close> is the raw request target, which the handlers log, and \<open>path\<close> is the path
  Express parses out of it and routes on. \<open>requestId\<close> is \<open>undefined\<close> until a
  middleware attaches it; \<open>advisor_id\<close> is \<open>req.advisor?.id\<close>. \<open>fresh\<close> is
  \<open>req.fresh\<close>: the validators of a conditional request match the response being
  sent. Of the payload the facts the body parsers decide on are kept: the media type of
  \<open>Content-Type\<close>; whether its character set or the \<open>Content-Encoding\<close> is one the
  parser for that media type refuses; the length in bytes of the decoded body (\<open>None\<close>
  for a request without body); and, for a body that does not parse, the parser's
  complaint.
\<close>

record request =
  http_method :: string
  url :: string
  path :: string
  ip :: string
  requestId :: "string option"
  advisor_id :: "string option"
  fresh :: bool
  content_type :: media_type
  unsupported_coding :: bool
  body_length :: "nat option"
  body_syntax_error :: "string option"

text \<open>An error passed to \<open>next(err)\<close> or thrown by a handler.\<close>

record http_error =
  err_message :: "string option"
  err_status :: "nat option"
  err_stack :: "string option"

text \<open>What the process environment, the clock and the database driver provide.\<close>

record runtime =
  env_NODE_ENV :: "string option"
  now_iso :: string
  db_readyState :: nat
  process_uptime :: real

text \<open>\<open>const NODE_ENV = process.env.NODE_ENV || 'development'\<close>\<close>

definition NODE_ENV :: "runtime \<Rightarrow> string" where
  "NODE_ENV rt = or_default (env_NODE_ENV rt) ''development''"

datatype log_level = Debug | Info | Warn | Error

type_synonym log_line = "log_level \<times> string"

subsection \<open>The handlers written in index.js\<close>

text \<open>
  Each handler is given by the lines it logs and by the response it builds, that is the
  arguments of its call \<open>res.status(s).json(b)\<close>; what Express makes of that call is
  \<open>res_json\<close> below.
\<close>

text \<open>\<open>app.get('/', ...)\<close>: the health check; \<open>res.json\<close> without \<open>res.status\<close> is status 200.\<close>

definition healthCheck :: "runtime \<Rightarrow> request \<Rightarrow> log_line list \<times> response" where
  "healthCheck rt req =
     (let healthStatus =
            [(''message'', JStr ''RICHIEAT Backend API is running!''),
             (''version'', JStr ''1.0.0''),
             (''status'', JStr ''active''),
             (''timestamp'', JStr (now_iso rt)),
             (''environment'', JStr (NODE_ENV rt)),
             (''database'', JStr (if db_readyState rt = 1 then ''connected'' else ''disconnected'')),
             (''uptime'', JNum (process_uptime rt))]
      in ([(Debug, ''Health check requested'')],
          \<lparr>status = 200, body = Some healthStatus\<rparr>))"

text \<open>\<open>err.status || 500\<close>: a missing status and the status \<open>0\<close> are falsy.\<close>

fun status_or_500 :: "nat option \<Rightarrow> nat" where
  "status_or_500 None = 500"
| "status_or_500 (Some n) = (if n = 0 then 500 else n)"

text \<open>The global error handling middleware (four arguments).\<close>

definition errorHandler :: "runtime \<Rightarrow> http_error \<Rightarrow> request \<Rightarrow> log_line list \<times> response" where
  "errorHandler rt err req =
     (let advisorId = advisor_id req;
          line = ''Unhandled error in '' @ http_method req @ '' '' @ url req
                 @ (if truthy advisorId
                    then '' (Advisor: '' @ js_to_string (optional advisorId) @ '')'' else [])
                 @ '': '' @ js_to_string (optional (err_message err));
          msg = (if NODE_ENV rt = ''production'' then Some ''Internal server error''
                 else err_message err)
      in ([(Error, line), (Error, js_to_string (optional (err_stack err)))],
          \<lparr>status = status_or_500 (err_status err),
           body = Some (json_props
             [(''success'', Some (JBool False)),
              (''message'', Some (JStr ''Something went wrong!'')),
              (''error'', map_option JStr msg),
              (''requestId'', map_option JStr (requestId req))])\<rparr>))"

text \<open>The 404 handler, registered last.\<close>

definition notFoundHandler :: "request \<Rightarrow> log_line list \<times> response" where
  "notFoundHandler req =
     ([(Warn, ''404 - Route not found: '' @ http_method req @ '' '' @ url req
              @ '' from IP: '' @ ip req)],
      \<lparr>status = 404,
       body = Some (json_props
         [(''success'', Some (JBool False)),
          (''message'', Some (JStr ''Route not found'')),
          (''requestId'', map_option JStr (requestId req))])\<rparr>)"

subsection \<open>The middleware stack\<close>

text \<open>
  What a layer does with a request: call \<open>next()\<close>, call \<open>next(err)\<close> (or throw),
  or send the response. The request goes on as the layer left it.
\<close>

datatype outcome = Next request | NextErr http_error request | Respond response

text \<open>
  The \<open>RangeError\<close> Node raises when a response is sent with a status code outside
  \<open>100..999\<close>.
\<close>

definition invalid_status_code :: http_error where
  "invalid_status_code =
     \<lparr>err_message = Some ''Invalid status code'', err_status = None, err_stack = None\<rparr>"

text \<open>
  What Express and Node make of \<open>res.status(s).json(b)\<close>. A status code outside
  \<open>100..999\<close> makes the call throw. A \<open>GET\<close> or \<open>HEAD\<close> request that is fresh turns
  a 2xx answer into 304. No body goes out with an informational status, with 204, 205
  or 304, or in answer to \<open>HEAD\<close>.
\<close>

definition sent_status :: "request \<Rightarrow> nat \<Rightarrow> nat" where
  "sent_status req code =
     (if (http_method req = ''GET'' \<or> http_method req = ''HEAD'')
         \<and> (200 \<le> code \<and> code < 300 \<or> code = 304) \<and> fresh req
      then 304 else code)"

definition bodiless :: "request \<Rightarrow> nat \<Rightarrow> bool" where
  "bodiless req code =
     (http_method req = ''HEAD'' \<or> code < 200 \<or> code = 204 \<or> code = 205 \<or> code = 304)"

definition res_json :: "request \<Rightarrow> response \<Rightarrow> outcome" where
  "res_json req resp =
     (if status resp < 100 \<or> 999 < status resp then NextErr invalid_status_code req
      else (let code = sent_status req (status resp)
            in Respond \<lparr>status = code,
                        body = (if bodiless req code then None else body resp)\<rparr>))"

text \<open>The layers of the application, named after what \<open>index.js\<close> registers.\<close>

datatype layer =
  AddRequestId | MorganMiddleware | RequestLogger | SecurityLogger
| Cors | ExpressJson | ExpressUrlencoded
| HealthCheck | AuthRoutes | ClientsRoutes
| ErrorHandler | NotFoundHandler

text \<open>The order of the \<open>app.use\<close> and \<open>app.get\<close> calls, top to bottom.\<close>

definition app_stack :: "layer list" where
  "app_stack =
     [AddRequestId, MorganMiddleware, RequestLogger, SecurityLogger,
      Cors, ExpressJson, ExpressUrlencoded,
      HealthCheck, AuthRoutes, ClientsRoutes,
      ErrorHandler, NotFoundHandler]"

text \<open>
  The four logging middleware come from \<open>middleware/requestLogger\<close> and the two routers
  from \<open>routes/auth\<close> and \<open>routes/clients\<close>, all outside the files modelled here;
  what they do with a request is a parameter.
\<close>

record deps =
  addRequestId :: "request \<Rightarrow> outcome"
  morganMiddleware :: "request \<Rightarrow> outcome"
  requestLogger :: "request \<Rightarrow> outcome"
  securityLogger :: "request \<Rightarrow> outcome"
  authRoutes :: "request \<Rightarrow> outcome"
  clientsRoutes :: "request \<Rightarrow> outcome"

text \<open>
  The \<open>cors\<close> package with a list of origins: it answers a preflight (\<open>OPTIONS\<close>)
  request itself with status 204 and lets every other request pass, only setting
  response headers, which are not modelled.
\<close>

definition cors :: "request \<Rightarrow> outcome" where
  "cors req =
     (if http_method req = ''OPTIONS'' then Respond \<lparr>status = 204, body = None\<rparr>
      else Next req)"

text \<open>\<open>limit: '10mb'\<close> is read in binary units: ten times \<open>2^20\<close> bytes.\<close>

definition body_limit :: nat where
  "body_limit = 10 * 1024 * 1024"

definition unsupported_media :: http_error where
  "unsupported_media =
     \<lparr>err_message = Some ''unsupported charset or content encoding'', err_status = Some 415,
      err_stack = None\<rparr>"

definition entity_too_large :: http_error where
  "entity_too_large =
     \<lparr>err_message = Some ''request entity too large'', err_status = Some 413, err_stack = None\<rparr>"

definition bad_request :: "string \<Rightarrow> http_error" where
  "bad_request m = \<lparr>err_message = Some m, err_status = Some 400, err_stack = None\<rparr>"

text \<open>
  A body parser of Express looks only at requests that have a body and whose
  \<open>Content-Type\<close> is the one it is made for; every other request passes untouched.
  For a body it looks at, it first checks the character set and the content encoding
  (status 415 when it refuses one), then the length against the limit (status 413),
  and then parses (status 400 when that fails).
\<close>

definition body_parser :: "media_type \<Rightarrow> request \<Rightarrow> outcome" where
  "body_parser accepted req =
     (case body_length req of
        None \<Rightarrow> Next req
      | Some n \<Rightarrow>
          if content_type req \<noteq> accepted then Next req
          else if unsupported_coding req then NextErr unsupported_media req
          else if n > body_limit then NextErr entity_too_large req
          else (case body_syntax_error req of
                  Some m \<Rightarrow> NextErr (bad_request m) req
                | None \<Rightarrow> Next req))"

definition express_json :: "request \<Rightarrow> outcome" where
  "express_json = body_parser ApplicationJson"

definition express_urlencoded :: "request \<Rightarrow> outcome" where
  "express_urlencoded = body_parser FormUrlencoded"

subsection \<open>Matching and dispatch as Express does them\<close>

text \<open>Routing is case-insensitive unless configured otherwise (it is not).\<close>

definition lower_char :: "char \<Rightarrow> char" where
  "lower_char c =
     (let n = (of_char c :: nat)
      in if 65 \<le> n \<and> n \<le> 90 then char_of (n + 32) else c)"

text \<open>\<open>app.use(prefix, router)\<close> matches the prefix itself and every path below it.\<close>

definition mounted_at :: "string \<Rightarrow> string \<Rightarrow> bool" where
  "mounted_at pre pth =
     (let p = map lower_char pth
      in p = pre \<or> take (length pre + 1) p = pre @ ''/'')"

text \<open>
  \<open>app.use(f)\<close> matches every request; \<open>app.get('/', f)\<close> matches the root path for
  \<open>GET\<close> (and \<open>HEAD\<close>, which Express routes to the \<open>GET\<close> handler).
\<close>

fun layer_matches :: "layer \<Rightarrow> request \<Rightarrow> bool" where
  "layer_matches HealthCheck req =
     ((http_method req = ''GET'' \<or> http_method req = ''HEAD'') \<and> path req = ''/'')"
| "layer_matches AuthRoutes req = mounted_at ''/api/auth'' (path req)"
| "layer_matches ClientsRoutes req = mounted_at ''/api/clients'' (path req)"
| "layer_matches l req = True"

text \<open>A handler with four parameters is an error handler.\<close>

fun is_error_handler :: "layer \<Rightarrow> bool" where
  "is_error_handler ErrorHandler = True"
| "is_error_handler l = False"

fun run_layer :: "deps \<Rightarrow> runtime \<Rightarrow> layer \<Rightarrow> request \<Rightarrow> outcome" where
  "run_layer d rt AddRequestId req = addRequestId d req"
| "run_layer d rt MorganMiddleware req = morganMiddleware d req"
| "run_layer d rt RequestLogger req = requestLogger d req"
| "run_layer d rt SecurityLogger req = securityLogger d req"
| "run_layer d rt Cors req = cors req"
| "run_layer d rt ExpressJson req = express_json req"
| "run_layer d rt ExpressUrlencoded req = express_urlencoded req"
| "run_layer d rt HealthCheck req = res_json req (snd (healthCheck rt req))"
| "run_layer d rt AuthRoutes req = authRoutes d req"
| "run_layer d rt ClientsRoutes req = clientsRoutes d req"
| "run_layer d rt NotFoundHandler req = res_json req (snd (notFoundHandler req))"
| "run_layer d rt ErrorHandler req = Next req"

fun run_error_layer :: "runtime \<Rightarrow> layer \<Rightarrow> http_error \<Rightarrow> request \<Rightarrow> outcome" where
  "run_error_layer rt ErrorHandler err req = res_json req (snd (errorHandler rt err req))"
| "run_error_layer rt l err req = NextErr err req"

text \<open>
  How a request ends: a layer sent the response, or the stack was used up (Express then
  answers by its built-in final handler, with a page of its own).
\<close>

datatype result = Sent response | Unhandled "http_error option" request

text \<open>
  Express walks the stack in registration order. Without a pending error it skips error
  handlers and layers that do not match; with a pending error it skips everything but
  error handlers. The first component lists the layers that ran, in the order they ran.
\<close>

fun dispatch ::
  "deps \<Rightarrow> runtime \<Rightarrow> layer list \<Rightarrow> http_error option \<Rightarrow> request \<Rightarrow> layer list \<times> result" where
  "dispatch d rt [] pending req = ([], Unhandled pending req)"
| "dispatch d rt (l # ls) None req =
     (if is_error_handler l \<or> \<not> layer_matches l req then dispatch d rt ls None req
      else (case run_layer d rt l req of
              Next req' \<Rightarrow> (let (tr, r) = dispatch d rt ls None req' in (l # tr, r))
            | NextErr e req' \<Rightarrow> (let (tr, r) = dispatch d rt ls (Some e) req' in (l # tr, r))
            | Respond resp \<Rightarrow> ([l], Sent resp)))"
| "dispatch d rt (l # ls) (Some e) req =
     (if is_error_handler l then
        (case run_error_layer rt l e req of
           Next req' \<Rightarrow> (let (tr, r) = dispatch d rt ls None req' in (l # tr, r))
         | NextErr e' req' \<Rightarrow> (let (tr, r) = dispatch d rt ls (Some e') req' in (l # tr, r))
         | Respond resp \<Rightarrow> ([l], Sent resp))
      else dispatch d rt ls (Some e) req)"

text \<open>The application: the whole stack, no error pending.\<close>

definition handle :: "deps \<Rightarrow> runtime \<Rightarrow> request \<Rightarrow> layer list \<times> result" where
  "handle d rt req = dispatch d rt app_stack None req"

subsection \<open>Vocabulary of the properties\<close>


fun is_route_handler :: "layer \<Rightarrow> bool" where
  "is_route_handler HealthCheck = True"
| "is_route_handler AuthRoutes = True"
| "is_route_handler ClientsRoutes = True"
| "is_route_handler NotFoundHandler = True"
| "is_route_handler l = False"


definition logging_layers :: "layer list" where
  "logging_layers = [AddRequestId, MorganMiddleware, RequestLogger, SecurityLogger]"

definition before_parsers :: "layer list" where
  "before_parsers = [AddRequestId, MorganMiddleware, RequestLogger, SecurityLogger, Cors]"

definition middleware_chain :: "layer list" where
  "middleware_chain =
     [AddRequestId, MorganMiddleware, RequestLogger, SecurityLogger,
      Cors, ExpressJson, ExpressUrlencoded]"

definition route_layers :: "layer list" where
  "route_layers = [HealthCheck, AuthRoutes, ClientsRoutes, ErrorHandler, NotFoundHandler]"

text \<open>
  What the four logging middleware, one after the other, do with a request: the next
  one runs only when the one before called \<open>next()\<close>.
\<close>

fun and_then :: "outcome \<Rightarrow> (request \<Rightarrow> outcome) \<Rightarrow> outcome" where
  "and_then (Next req) f = f req"
| "and_then (NextErr e req) f = NextErr e req"
| "and_then (Respond r) f = Respond r"

definition loggers :: "deps \<Rightarrow> request \<Rightarrow> outcome" where
  "loggers d req =
     and_then (and_then (and_then (addRequestId d req) (morganMiddleware d)) (requestLogger d))
       (securityLogger d)"

text \<open>
  The body parsers have nothing to object to: the request has no body, or a body of a
  media type neither parser reads, or one in an accepted coding that is within the
  limit and parses.
\<close>

definition parsers_accept :: "request \<Rightarrow> bool" where
  "parsers_accept req =
     (case body_length req of
        None \<Rightarrow> True
      | Some n \<Rightarrow>
          content_type req = OtherMedia
          \<or> (n \<le> body_limit \<and> body_syntax_error req = None \<and> unsupported_coding req = False))"

text \<open>
  A login, register or profile call failed: it rejected, or the server answered
  \<open>success: false\<close>.
\<close>

fun call_failed :: "'a api_response settled \<Rightarrow> bool" where
  "call_failed (Rejected e) = True"
| "call_failed (Resolved (Defined r)) = (success r = False)"
| "call_failed (Resolved n) = False"

text \<open>The call rejected with \<open>undefined\<close> or \<open>null\<close>.\<close>

fun rejected_nullish :: "'r settled \<Rightarrow> bool" where
  "rejected_nullish (Rejected (Defined e)) = False"
| "rejected_nullish (Rejected n) = True"
| "rejected_nullish (Resolved v) = False"

subsection \<open>Sample inputs\<close>

text \<open>Browser side: a stored session, API calls that fail or succeed without touching storage.\<close>

definition no_storage :: storage where
  "no_storage k = None"

definition session_storage :: storage where
  "session_storage = no_storage(''token'' := Some ''abc'', ''user'' := Some ''{}'')"

definition token_only_storage :: storage where
  "token_only_storage = no_storage(''token'' := Some ''abc'')"

definition logged_in :: "string auth_state" where
  "logged_in =
     \<lparr>user = Some ''amy'', loading = False, isAuthenticated = True,
      localStorage = session_storage, events = []\<rparr>"

definition network_error :: js_error where
  "network_error = JsError (Some ''Network Error'')"

definition failing_logout :: "unit api_call" where
  "failing_logout s = (Rejected (Defined network_error), s)"

definition amy_profile :: "string api_response" where
  "amy_profile =
     \<lparr>success = True, token = Undefined, advisor = Defined ''amy'', message = None\<rparr>"

definition refusal :: "string api_response" where
  "refusal =
     \<lparr>success = False, token = Undefined, advisor = Undefined,
      message = Some ''Invalid credentials''\<rparr>"

definition profile_ok :: "string api_response api_call" where
  "profile_ok s = (Resolved (Defined amy_profile), s)"

definition profile_refused :: "string api_response api_call" where
  "profile_refused s = (Resolved (Defined refusal), s)"

definition login_refused :: "string \<Rightarrow> string api_response api_call" where
  "login_refused c s = (Resolved (Defined refusal), s)"

definition login_rejects_undefined :: "string \<Rightarrow> string api_response api_call" where
  "login_rejects_undefined c s = (Rejected Undefined, s)"

definition register_unreachable :: "string \<Rightarrow> string api_response api_call" where
  "register_unreachable u s = (Rejected (Defined network_error), s)"

definition plain :: "string \<Rightarrow> string" where
  "plain a = a"

text \<open>
  Server side: logging middleware that tags the request and passes it on, routers that
  answer every request they get, and a few requests.
\<close>

definition stub_response :: response where
  "stub_response = \<lparr>status = 200, body = Some [(''success'', JBool True)]\<rparr>"

definition tagged :: "request \<Rightarrow> request" where
  "tagged req = req\<lparr>requestId := Some ''req-1''\<rparr>"

definition attach_id :: "request \<Rightarrow> outcome" where
  "attach_id req = Next (tagged req)"

definition answer_ok :: "request \<Rightarrow> outcome" where
  "answer_ok req = Respond stub_response"

definition stub_deps :: deps where
  "stub_deps =
     \<lparr>addRequestId = attach_id, morganMiddleware = Next, requestLogger = Next,
      securityLogger = Next, authRoutes = answer_ok, clientsRoutes = answer_ok\<rparr>"

definition dev_runtime :: runtime where
  "dev_runtime =
     \<lparr>env_NODE_ENV = None, now_iso = ''2025-01-01T00:00:00.000Z'', db_readyState = 1,
      process_uptime = 42\<rparr>"

definition prod_runtime :: runtime where
  "prod_runtime = dev_runtime\<lparr>env_NODE_ENV := Some ''production''\<rparr>"

definition health_probe :: request where
  "health_probe =
     \<lparr>http_method = ''GET'', url = ''/'', path = ''/'', ip = ''127.0.0.1'',
      requestId = None, advisor_id = None, fresh = False,
      content_type = OtherMedia, unsupported_coding = False,
      body_length = None, body_syntax_error = None\<rparr>"

definition unknown_path :: request where
  "unknown_path = health_probe\<lparr>url := ''/api/unknown'', path := ''/api/unknown''\<rparr>"

definition preflight_unknown :: request where
  "preflight_unknown = unknown_path\<lparr>http_method := ''OPTIONS''\<rparr>"

definition login_post :: request where
  "login_post =
     health_probe\<lparr>http_method := ''POST'', url := ''/api/auth/login'',
       path := ''/api/auth/login'',
       content_type := ApplicationJson, body_length := Some 64\<rparr>"

definition head_login :: request where
  "head_login = login_post\<lparr>http_method := ''HEAD''\<rparr>"

definition large_json_post :: request where
  "large_json_post =
     health_probe\<lparr>http_method := ''POST'', url := ''/api/auth/login'',
       path := ''/api/auth/login'',
       content_type := ApplicationJson, body_length := Some (11 * 1024 * 1024)\<rparr>"

definition large_text_post :: request where
  "large_text_post = large_json_post\<lparr>content_type := OtherMedia\<rparr>"

definition db_down :: http_error where
  "db_down = \<lparr>err_message = Some ''db down'', err_status = None, err_stack = None\<rparr>"

definition odd_status :: http_error where
  "odd_status = db_down\<lparr>err_status := Some 99\<rparr>"

section \<open>Properties of the authentication context\<close>

lemmas context_defs = await_api_def setLoading_def setUser_def setIsAuthenticated_def
  emit_def removeItem_def setItem_def getItem_def initial_state_def

lemmas browser_samples = no_storage_def session_storage_def token_only_storage_def
  logged_in_def network_error_def failing_logout_def amy_profile_def refusal_def
  profile_ok_def profile_refused_def login_refused_def login_rejects_undefined_def
  register_unreachable_def plain_def

lemma truthy_SomeD: "truthy x \<Longrightarrow> \<exists>y. x = Some y"
  by (cases x) simp_all

lemma call_failed_cases:
  "call_failed x \<Longrightarrow>
     (\<exists>e. x = Rejected e) \<or> (\<exists>r. x = Resolved (Defined r) \<and> \<not> success r)"
  by (cases x rule: call_failed.cases) simp_all

lemma rejected_nullish_cases:
  "\<not> rejected_nullish (Rejected e) \<Longrightarrow> \<exists>err. e = Defined err"
  by (cases e) simp_all

subsection \<open>logout\<close>

text \<open>
  Claim C1, as stated, asks that every logout clears the two storage keys \<open>token\<close> and
  \<open>user\<close>, also when the server call fails. It does not hold: with a logout call that
  fails and leaves the storage alone, both keys are still there after \<open>logout\<close>.
\<close>

theorem logout_keeps_storage_counterexample:
  "localStorage (snd (logout failing_logout logged_in)) ''token'' = Some ''abc''
   \<and> localStorage (snd (logout failing_logout logged_in)) ''user'' = Some ''{}''"
  by (simp add: logout_def Let_def context_defs browser_samples)

text \<open>
  Claim C1, amended: every logout, whether the server call succeeds or fails, resets the
  in-memory state (\<open>user\<close> is \<open>null\<close>, \<open>isAuthenticated\<close> and \<open>loading\<close> are false);
  \<open>logout\<close> itself removes no storage key, so the browser storage afterwards is exactly
  what the call \<open>authAPI.logout\<close> left.
\<close>

theorem logout_resets_memory_state:
  "user (snd (logout api st)) = None
   \<and> \<not> isAuthenticated (snd (logout api st))
   \<and> \<not> loading (snd (logout api st))
   \<and> localStorage (snd (logout api st)) = snd (api (localStorage st))"
  by (auto simp add: logout_def Let_def context_defs split: prod.splits settled.splits)

text \<open>
  Claim C9: \<open>logout\<close> always resolves with \<open>{success: true}\<close>, whether the server call
  succeeds or throws; it never rejects and never resolves with \<open>success: false\<close>.
\<close>

theorem logout_resolves_success:
  "fst (logout api st) = Returned (AuthResult True None None)"
  by (simp add: logout_def Let_def split: prod.splits settled.splits)

subsection \<open>checkAuthStatus\<close>

text \<open>
  Claim C2, as stated, makes a persisted token and a profile fetch that succeeds enough
  for the authenticated state, and promises that a fetch that fails purges both keys.
  It does not hold when the token is stored without the \<open>user\<close> key: the profile is not
  fetched at all, so the state stays unauthenticated although the fetch would succeed,
  and the token stays in the storage although the fetch would be refused.
\<close>

theorem checkAuthStatus_token_only_counterexample:
  "token_only_storage ''token'' = Some ''abc''
   \<and> fst (profile_ok token_only_storage) = Resolved (Defined amy_profile)
   \<and> success amy_profile
   \<and> \<not> isAuthenticated (checkAuthStatus profile_ok (initial_state token_only_storage))
   \<and> call_failed (fst (profile_refused token_only_storage))
   \<and> localStorage (checkAuthStatus profile_refused (initial_state token_only_storage)) ''token''
       = Some ''abc''"
  by (simp add: checkAuthStatus_def Let_def context_defs browser_samples)

text \<open>
  Claim C2, amended: on the initial auth check, when both keys \<open>token\<close> and \<open>user\<close> are
  persisted (non-empty) and the profile fetch succeeds, the profile is fetched and the
  state becomes authenticated with the fetched advisor as user; when no token is
  persisted the state is unauthenticated; when both keys are persisted and the fetch
  fails (it rejects, or answers \<open>success: false\<close>), the state is unauthenticated and
  both keys are removed from the storage. In all three cases \<open>loading\<close> ends false.
\<close>

theorem checkAuthStatus_transitions:
  "(truthy (s ''token'') \<and> truthy (s ''user'')
      \<and> fst (getProfile s) = Resolved (Defined r) \<and> success r
     \<longrightarrow> events (checkAuthStatus getProfile (initial_state s)) = [ApiGetProfile]
         \<and> isAuthenticated (checkAuthStatus getProfile (initial_state s))
         \<and> user (checkAuthStatus getProfile (initial_state s)) = nullish_to_none (advisor r)
         \<and> \<not> loading (checkAuthStatus getProfile (initial_state s)))
   \<and> (s ''token'' = None
     \<longrightarrow> \<not> isAuthenticated (checkAuthStatus getProfile (initial_state s))
         \<and> user (checkAuthStatus getProfile (initial_state s)) = None
         \<and> \<not> loading (checkAuthStatus getProfile (initial_state s)))
   \<and> (truthy (s ''token'') \<and> truthy (s ''user'') \<and> call_failed (fst (getProfile s))
     \<longrightarrow> \<not> isAuthenticated (checkAuthStatus getProfile (initial_state s))
         \<and> user (checkAuthStatus getProfile (initial_state s)) = None
         \<and> \<not> loading (checkAuthStatus getProfile (initial_state s))
         \<and> localStorage (checkAuthStatus getProfile (initial_state s)) ''token'' = None
         \<and> localStorage (checkAuthStatus getProfile (initial_state s)) ''user'' = None)"
proof -
  let ?st = "checkAuthStatus getProfile (initial_state s)"
  have fetched:
    "events ?st = [ApiGetProfile] \<and> isAuthenticated ?st
       \<and> user ?st = nullish_to_none (advisor r) \<and> \<not> loading ?st"
    if "truthy (s ''token'') \<and> truthy (s ''user'')
          \<and> fst (getProfile s) = Resolved (Defined r) \<and> success r"
    using that
    by (cases "getProfile s") (simp add: checkAuthStatus_def Let_def context_defs)
  have no_token: "\<not> isAuthenticated ?st \<and> user ?st = None \<and> \<not> loading ?st"
    if "s ''token'' = None"
    using that by (simp add: checkAuthStatus_def Let_def context_defs)
  have purged:
    "\<not> isAuthenticated ?st \<and> user ?st = None \<and> \<not> loading ?st
       \<and> localStorage ?st ''token'' = None \<and> localStorage ?st ''user'' = None"
    if failed: "truthy (s ''token'') \<and> truthy (s ''user'') \<and> call_failed (fst (getProfile s))"
  proof -
    obtain x s' where call: "getProfile s = (x, s')"
      by (cases "getProfile s")
    with failed have "call_failed x" by simp
    then consider e where "x = Rejected e"
      | r' where "x = Resolved (Defined r')" "\<not> success r'"
      using call_failed_cases by blast
    then show ?thesis
    proof cases
      case 1
      with failed call show ?thesis
        by (simp add: checkAuthStatus_def Let_def context_defs)
    next
      case 2
      with failed call show ?thesis
        by (simp add: checkAuthStatus_def Let_def context_defs)
    qed
  qed
  from fetched no_token purged show ?thesis by blast
qed

text \<open>The three cases of the amended C2 on sample inputs.\<close>

theorem checkAuthStatus_transitions_witness:
  "(events (checkAuthStatus profile_ok (initial_state session_storage)) = [ApiGetProfile]
      \<and> isAuthenticated (checkAuthStatus profile_ok (initial_state session_storage))
      \<and> user (checkAuthStatus profile_ok (initial_state session_storage)) = Some ''amy''
      \<and> \<not> loading (checkAuthStatus profile_ok (initial_state session_storage)))
   \<and> (\<not> isAuthenticated (checkAuthStatus profile_ok (initial_state no_storage))
      \<and> user (checkAuthStatus profile_ok (initial_state no_storage)) = None
      \<and> \<not> loading (checkAuthStatus profile_ok (initial_state no_storage)))
   \<and> (\<not> isAuthenticated (checkAuthStatus profile_refused (initial_state session_storage))
      \<and> localStorage (checkAuthStatus profile_refused (initial_state session_storage)) ''token'' = None
      \<and> localStorage (checkAuthStatus profile_refused (initial_state session_storage)) ''user'' = None)"
proof -
  have both: "truthy (session_storage ''token'') \<and> truthy (session_storage ''user'')"
    by (simp add: browser_samples)
  have fetch_ok:
    "fst (profile_ok session_storage) = Resolved (Defined amy_profile) \<and> success amy_profile"
    by (simp add: browser_samples)
  have no_token: "no_storage ''token'' = None"
    by (simp add: browser_samples)
  have fetch_refused: "call_failed (fst (profile_refused session_storage))"
    by (simp add: browser_samples)
  have amy: "nullish_to_none (advisor amy_profile) = Some ''amy''"
    by (simp add: amy_profile_def)
  from checkAuthStatus_transitions
         [where s = session_storage and getProfile = profile_ok and r = amy_profile]
       checkAuthStatus_transitions [where s = no_storage and getProfile = profile_ok]
       checkAuthStatus_transitions
         [where s = session_storage and getProfile = profile_refused]
       both fetch_ok no_token fetch_refused amy
  show ?thesis by metis
qed

text \<open>
  Claim C10: the initial auth check fetches the profile only when both storage keys are
  present; with exactly one of them present it fetches nothing, removes no key, and ends
  unauthenticated with \<open>loading\<close> false.
\<close>

theorem checkAuthStatus_fetch_guard:
  "(ApiGetProfile \<in> set (events (checkAuthStatus getProfile (initial_state s)))
     \<longrightarrow> s ''token'' \<noteq> None \<and> s ''user'' \<noteq> None)
   \<and> ((s ''token'' = None) \<noteq> (s ''user'' = None)
     \<longrightarrow> events (checkAuthStatus getProfile (initial_state s)) = []
         \<and> localStorage (checkAuthStatus getProfile (initial_state s)) = s
         \<and> \<not> isAuthenticated (checkAuthStatus getProfile (initial_state s))
         \<and> user (checkAuthStatus getProfile (initial_state s)) = None
         \<and> \<not> loading (checkAuthStatus getProfile (initial_state s)))"
  by (auto simp add: checkAuthStatus_def Let_def context_defs dest: truthy_SomeD
           split: prod.splits settled.splits nullable.splits if_splits)

text \<open>C10 on sample inputs: a fetch with both keys stored, none with the token alone.\<close>

theorem checkAuthStatus_fetch_guard_witness:
  "(session_storage ''token'' \<noteq> None \<and> session_storage ''user'' \<noteq> None)
   \<and> events (checkAuthStatus profile_ok (initial_state token_only_storage)) = []
   \<and> localStorage (checkAuthStatus profile_ok (initial_state token_only_storage))
       = token_only_storage
   \<and> \<not> isAuthenticated (checkAuthStatus profile_ok (initial_state token_only_storage))
   \<and> \<not> loading (checkAuthStatus profile_ok (initial_state token_only_storage))"
proof -
  have fetched:
    "ApiGetProfile \<in> set (events (checkAuthStatus profile_ok (initial_state session_storage)))"
    by (simp add: checkAuthStatus_def Let_def context_defs browser_samples)
  have one_key: "(token_only_storage ''token'' = None) \<noteq> (token_only_storage ''user'' = None)"
    by (simp add: browser_samples)
  from checkAuthStatus_fetch_guard [where s = session_storage and getProfile = profile_ok]
       checkAuthStatus_fetch_guard [where s = token_only_storage and getProfile = profile_ok]
       fetched one_key
  show ?thesis by metis
qed

subsection \<open>login and register\<close>

text \<open>What the \<open>catch\<close> block does with an error object.\<close>

lemma catch_block_object:
  "\<exists>m t pre.
     fst (catch_block label fallback (Defined e) st) = Returned (AuthResult False None m)
   \<and> events (snd (catch_block label fallback (Defined e) st)) = events st @ pre @ [ToastError t]
   \<and> localStorage (snd (catch_block label fallback (Defined e) st)) = localStorage st"
  by (simp add: catch_block_def Let_def context_defs; metis append_Cons append_Nil)

text \<open>
  Claim C6, as stated, has every failed \<open>login\<close> or \<open>register\<close> call resolve with
  \<open>{success: false, message}\<close> and show a notification, also when the call throws. It
  does not hold for a call that rejects with \<open>undefined\<close>: the \<open>catch\<close> block throws on
  \<open>error.message\<close>, the promise of \<open>login\<close> rejects and no toast is shown.
\<close>

theorem login_rejects_counterexample:
  "call_failed (fst (login_rejects_undefined ''a@x.com'' no_storage))
   \<and> fst (login plain login_rejects_undefined ''a@x.com'' (initial_state no_storage))
       = Thrown type_error
   \<and> events (snd (login plain login_rejects_undefined ''a@x.com''
                    (initial_state no_storage :: string auth_state)))
       = [ApiLogin, ConsoleError ''Login error:'' Undefined]"
  by (simp add: login_def catch_block_def Let_def context_defs browser_samples)

text \<open>
  Claim C6, amended: a failed \<open>login\<close> or \<open>register\<close> call, where the server answers
  \<open>success: false\<close> or the call rejects with a value other than \<open>undefined\<close> and
  \<open>null\<close>, resolves with \<open>{success: false, message}\<close> instead of rejecting, shows an
  error toast, and writes nothing to the browser storage: the storage is what the API
  call left.
\<close>

theorem failed_login_register:
  "(call_failed (fst (api_login c (localStorage st)))
      \<and> \<not> rejected_nullish (fst (api_login c (localStorage st)))
     \<longrightarrow> (\<exists>m t pre.
            fst (login stringify api_login c st) = Returned (AuthResult False None m)
          \<and> events (snd (login stringify api_login c st)) = events st @ pre @ [ToastError t]
          \<and> localStorage (snd (login stringify api_login c st))
              = snd (api_login c (localStorage st))))
   \<and> (call_failed (fst (api_register u (localStorage st)))
      \<and> \<not> rejected_nullish (fst (api_register u (localStorage st)))
     \<longrightarrow> (\<exists>m t pre.
            fst (register stringify api_register u st) = Returned (AuthResult False None m)
          \<and> events (snd (register stringify api_register u st)) = events st @ pre @ [ToastError t]
          \<and> localStorage (snd (register stringify api_register u st))
              = snd (api_register u (localStorage st))))"
proof (intro conjI impI)
  assume failed: "call_failed (fst (api_login c (localStorage st)))
      \<and> \<not> rejected_nullish (fst (api_login c (localStorage st)))"
  obtain x s' where call: "api_login c (localStorage st) = (x, s')"
    by (cases "api_login c (localStorage st)")
  with failed have "call_failed x" and object: "\<not> rejected_nullish x" by simp_all
  then consider e where "x = Rejected (Defined e)"
    | r where "x = Resolved (Defined r)" "\<not> success r"
    using call_failed_cases rejected_nullish_cases by blast
  then show "\<exists>m t pre.
            fst (login stringify api_login c st) = Returned (AuthResult False None m)
          \<and> events (snd (login stringify api_login c st)) = events st @ pre @ [ToastError t]
          \<and> localStorage (snd (login stringify api_login c st))
              = snd (api_login c (localStorage st))"
  proof cases
    case 1
    let ?st1 = "(emit ApiLogin (setLoading True st))\<lparr>localStorage := s'\<rparr>"
    from catch_block_object [of "''Login error:''" "''Login failed. Please try again.''" e ?st1]
    obtain m t pre where
      "fst (catch_block ''Login error:'' ''Login failed. Please try again.'' (Defined e) ?st1)
         = Returned (AuthResult False None m)"
      "events (snd (catch_block ''Login error:'' ''Login failed. Please try again.''
                      (Defined e) ?st1)) = events ?st1 @ pre @ [ToastError t]"
      "localStorage (snd (catch_block ''Login error:'' ''Login failed. Please try again.''
                      (Defined e) ?st1)) = localStorage ?st1"
      by blast
    with call 1 show ?thesis
      by (simp add: login_def context_defs; metis append_Cons append_Nil)
  next
    case 2
    with call show ?thesis
      by (simp add: login_def Let_def context_defs; metis append_Cons append_Nil)
  qed
next
  assume failed: "call_failed (fst (api_register u (localStorage st)))
      \<and> \<not> rejected_nullish (fst (api_register u (localStorage st)))"
  obtain x s' where call: "api_register u (localStorage st) = (x, s')"
    by (cases "api_register u (localStorage st)")
  with failed have "call_failed x" and object: "\<not> rejected_nullish x" by simp_all
  then consider e where "x = Rejected (Defined e)"
    | r where "x = Resolved (Defined r)" "\<not> success r"
    using call_failed_cases rejected_nullish_cases by blast
  then show "\<exists>m t pre.
            fst (register stringify api_register u st) = Returned (AuthResult False None m)
          \<and> events (snd (register stringify api_register u st)) = events st @ pre @ [ToastError t]
          \<and> localStorage (snd (register stringify api_register u st))
              = snd (api_register u (localStorage st))"
  proof cases
    case 1
    let ?st1 = "(emit ApiRegister (setLoading True st))\<lparr>localStorage := s'\<rparr>"
    from catch_block_object
           [of "''Registration error:''" "''Registration failed. Please try again.''" e ?st1]
    obtain m t pre where
      "fst (catch_block ''Registration error:'' ''Registration failed. Please try again.''
              (Defined e) ?st1) = Returned (AuthResult False None m)"
      "events (snd (catch_block ''Registration error:'' ''Registration failed. Please try again.''
                      (Defined e) ?st1)) = events ?st1 @ pre @ [ToastError t]"
      "localStorage (snd (catch_block ''Registration error:''
                      ''Registration failed. Please try again.'' (Defined e) ?st1))
         = localStorage ?st1"
      by blast
    with call 1 show ?thesis
      by (simp add: register_def context_defs; metis append_Cons append_Nil)
  next
    case 2
    with call show ?thesis
      by (simp add: register_def Let_def context_defs; metis append_Cons append_Nil)
  qed
qed

text \<open>
  The amended C6 on sample inputs: a refused login and a registration that cannot reach
  the server.
\<close>

theorem failed_login_register_witness:
  "(\<exists>m t pre.
      fst (login plain login_refused ''a@x.com'' (initial_state no_storage))
        = Returned (AuthResult False None m)
    \<and> events (snd (login plain login_refused ''a@x.com'' (initial_state no_storage)))
        = events (initial_state no_storage :: string auth_state) @ pre @ [ToastError t]
    \<and> localStorage (snd (login plain login_refused ''a@x.com'' (initial_state no_storage)))
        = snd (login_refused ''a@x.com''
                 (localStorage (initial_state no_storage :: string auth_state))))
   \<and> (\<exists>m t pre.
      fst (register plain register_unreachable ''amy'' (initial_state no_storage))
        = Returned (AuthResult False None m)
    \<and> events (snd (register plain register_unreachable ''amy'' (initial_state no_storage)))
        = events (initial_state no_storage :: string auth_state) @ pre @ [ToastError t]
    \<and> localStorage (snd (register plain register_unreachable ''amy'' (initial_state no_storage)))
        = snd (register_unreachable ''amy''
                 (localStorage (initial_state no_storage :: string auth_state))))"
proof -
  have refused:
    "call_failed (fst (login_refused ''a@x.com''
        (localStorage (initial_state no_storage :: string auth_state))))
     \<and> \<not> rejected_nullish (fst (login_refused ''a@x.com''
        (localStorage (initial_state no_storage :: string auth_state))))"
    by (simp add: browser_samples)
  have unreachable:
    "call_failed (fst (register_unreachable ''amy''
        (localStorage (initial_state no_storage :: string auth_state))))
     \<and> \<not> rejected_nullish (fst (register_unreachable ''amy''
        (localStorage (initial_state no_storage :: string auth_state))))"
    by (simp add: browser_samples)
  from failed_login_register
         [where api_login = login_refused and c = "''a@x.com''"
            and st = "initial_state no_storage" and stringify = plain
            and api_register = register_unreachable and u = "''amy''"]
       refused unreachable
  show ?thesis by blast
qed

section \<open>Properties of the Express application\<close>

lemmas server_samples = stub_deps_def attach_id_def answer_ok_def stub_response_def
  tagged_def dev_runtime_def prod_runtime_def health_probe_def unknown_path_def
  preflight_unknown_def login_post_def head_login_def large_json_post_def large_text_post_def
  db_down_def odd_status_def

lemmas stack_defs = handle_def app_stack_def cors_def express_json_def express_urlencoded_def
  body_parser_def body_limit_def mounted_at_def lower_char_def
  res_json_def sent_status_def bodiless_def
  healthCheck_def errorHandler_def notFoundHandler_def Let_def

subsection \<open>Facts about dispatch\<close>


lemma app_stack_logging:
  "app_stack = logging_layers @ Cors # ExpressJson # ExpressUrlencoded # route_layers"
  by (simp add: app_stack_def logging_layers_def route_layers_def)

lemma chain_logging: "middleware_chain = logging_layers @ [Cors, ExpressJson, ExpressUrlencoded]"
  by (simp add: middleware_chain_def logging_layers_def)



text \<open>Running a stack is running its front part and then, unless that answered, the rest.\<close>

lemma dispatch_append:
  "dispatch d rt (xs @ ys) p req =
     (case dispatch d rt xs p req of
        (tr, Sent r) \<Rightarrow> (tr, Sent r)
      | (tr, Unhandled p' req') \<Rightarrow>
          (let (tr', r) = dispatch d rt ys p' req' in (tr @ tr', r)))"
  by (induction d rt xs p req rule: dispatch.induct)
     (auto split: outcome.splits prod.splits result.splits)









text \<open>The logging middleware as layers of the stack.\<close>

lemma loggers_pass:
  "loggers d req = Next req' \<Longrightarrow>
     dispatch d rt logging_layers None req = (logging_layers, Unhandled None req')"
  by (auto simp add: loggers_def logging_layers_def split: outcome.splits)

lemma parsers_pass:
  "parsers_accept req \<Longrightarrow> express_json req = Next req \<and> express_urlencoded req = Next req"
  by (auto simp add: parsers_accept_def express_json_def express_urlencoded_def
        body_parser_def split: option.splits)

lemma other_media_passes:
  "content_type req = OtherMedia \<Longrightarrow>
     express_json req = Next req \<and> express_urlencoded req = Next req"
  by (simp add: express_json_def express_urlencoded_def body_parser_def split: option.splits)

subsection \<open>Facts about the handlers\<close>

lemma error_handler_status:
  "status (snd (errorHandler rt err req)) = status_or_500 (err_status err)"
  by (simp add: errorHandler_def Let_def)

lemma error_handler_success:
  "field ''success'' (snd (errorHandler rt err req)) = Some (JBool False)"
  by (simp add: errorHandler_def field_def Let_def)

lemma error_handler_requestId:
  "field ''requestId'' (snd (errorHandler rt err req)) = map_option JStr (requestId req)"
  by (cases "requestId req"; cases "err_message err")
     (simp_all add: errorHandler_def field_def Let_def)


lemma not_found_response:
  "snd (notFoundHandler req) =
     \<lparr>status = 404,
      body = Some (json_props [(''success'', Some (JBool False)),
                               (''message'', Some (JStr ''Route not found'')),
                               (''requestId'', map_option JStr (requestId req))])\<rparr>"
  by (simp add: notFoundHandler_def)

lemma not_found_fields:
  "field ''success'' (snd (notFoundHandler req)) = Some (JBool False)
   \<and> field ''requestId'' (snd (notFoundHandler req)) = map_option JStr (requestId req)"
  by (cases "requestId req") (simp_all add: notFoundHandler_def field_def)

lemma health_check_keys:
  "map_option (map fst) (body (snd (healthCheck rt req))) =
     Some [''message'', ''version'', ''status'', ''timestamp'', ''environment'',
           ''database'', ''uptime'']"
  by (simp add: healthCheck_def)


text \<open>A client error status goes out as it is; only the body depends on the method.\<close>

lemma res_json_client_error:
  assumes "400 \<le> status resp" and "status resp \<le> 999"
  shows "res_json req resp =
           Respond \<lparr>status = status resp,
                    body = (if http_method req = ''HEAD'' then None else body resp)\<rparr>"
  using assms by (auto simp add: res_json_def sent_status_def bodiless_def)




lemma oversized_body_fails:
  assumes "content_type req = ApplicationJson \<or> content_type req = FormUrlencoded"
    and "unsupported_coding req = False"
    and "body_length req = Some n" and "body_limit < n"
  shows "\<exists>tr resp.
           dispatch d rt (ExpressJson # ExpressUrlencoded # route_layers) None req
             = (tr, Sent resp)
         \<and> status resp = 413 \<and> set tr \<subseteq> {ExpressJson, ExpressUrlencoded, ErrorHandler}"
proof -
  let ?resp = "snd (errorHandler rt entity_too_large req)"
  have st: "status ?resp = 413"
    by (simp add: error_handler_status entity_too_large_def)
  have sent: "res_json req ?resp =
                Respond \<lparr>status = 413,
                         body = (if http_method req = ''HEAD'' then None else body ?resp)\<rparr>"
    using res_json_client_error [of ?resp req] st by simp
  from assms(1) show ?thesis
  proof
    assume "content_type req = ApplicationJson"
    with assms(2-4) sent show ?thesis
      by (simp add: express_json_def body_parser_def route_layers_def)
  next
    assume "content_type req = FormUrlencoded"
    with assms(2-4) sent show ?thesis
      by (simp add: express_json_def express_urlencoded_def body_parser_def route_layers_def)
  qed
qed

subsection \<open>Response fields\<close>

text \<open>
  Claim C3, as stated, asks that every response of the backend, the health probe's
  included, carries a \<open>success\<close> field and the correlation ID. It does not hold: the
  body that \<open>GET /\<close> answers with has neither a \<open>success\<close> nor a \<open>requestId\<close> field,
  also for a request that carries an ID.
\<close>

theorem health_probe_fields_counterexample:
  "snd (handle stub_deps dev_runtime health_probe)
     = Sent (snd (healthCheck dev_runtime (tagged health_probe)))
   \<and> requestId (tagged health_probe) = Some ''req-1''
   \<and> field ''success'' (snd (healthCheck dev_runtime (tagged health_probe))) = None
   \<and> field ''requestId'' (snd (healthCheck dev_runtime (tagged health_probe))) = None"
  by (simp add: server_samples stack_defs healthCheck_def field_def)

text \<open>
  Claim C3, amended: the responses of the terminal error handler and of the 404 handler
  contain \<open>success: false\<close> and the \<open>requestId\<close> of the request; the body of the
  health-probe response consists of the fields \<open>message\<close>, \<open>version\<close>, \<open>status\<close>,
  \<open>timestamp\<close>, \<open>environment\<close>, \<open>database\<close> and \<open>uptime\<close>, without a \<open>success\<close>
  field and without a \<open>requestId\<close> field.
\<close>

theorem index_responses_fields:
  "field ''success'' (snd (errorHandler rt err req)) = Some (JBool False)
   \<and> field ''requestId'' (snd (errorHandler rt err req)) = map_option JStr (requestId req)
   \<and> field ''success'' (snd (notFoundHandler req)) = Some (JBool False)
   \<and> field ''requestId'' (snd (notFoundHandler req)) = map_option JStr (requestId req)
   \<and> map_option (map fst) (body (snd (healthCheck rt req)))
       = Some [''message'', ''version'', ''status'', ''timestamp'', ''environment'',
               ''database'', ''uptime'']"
  by (simp add: error_handler_success error_handler_requestId not_found_fields
        health_check_keys)

subsection \<open>The terminal error handler\<close>




subsection \<open>Order of the pipeline\<close>



subsection \<open>Unmatched routes\<close>

text \<open>
  Claim C5, as stated, has every request whose path matches no registered route
  answered with status 404 and the JSON body. It does not hold: a preflight request
  (\<open>OPTIONS\<close>) to \<open>/api/unknown\<close> matches no route and is answered by the CORS
  middleware with status 204 and no body, before route matching.
\<close>

theorem preflight_unmatched_counterexample:
  "\<not> layer_matches HealthCheck (tagged preflight_unknown)
   \<and> \<not> layer_matches AuthRoutes (tagged preflight_unknown)
   \<and> \<not> layer_matches ClientsRoutes (tagged preflight_unknown)
   \<and> handle stub_deps dev_runtime preflight_unknown
       = (before_parsers, Sent \<lparr>status = 204, body = None\<rparr>)"
  by (simp add: server_samples stack_defs before_parsers_def)

text \<open>
  Claim C5, amended: a request that the logging middleware pass on with a correlation
  ID, that is no preflight (\<open>OPTIONS\<close>) request, that the body parsers have nothing to
  object to, and that matches no registered route (not \<open>GET /\<close>, not under
  \<open>/api/auth\<close>, not under \<open>/api/clients\<close>) runs through the whole middleware chain
  and is answered by the 404 handler: status 404 and, unless the method is \<open>HEAD\<close>
  (no body is sent then), the JSON body \<open>{success: false, message, requestId}\<close> with
  that correlation ID.
\<close>

theorem unmatched_route_404:
  assumes "loggers d req = Next req'"
    and "requestId req' = Some rid"
    and "http_method req' \<noteq> ''OPTIONS''"
    and "parsers_accept req'"
    and "\<not> layer_matches HealthCheck req'"
    and "\<not> layer_matches AuthRoutes req'"
    and "\<not> layer_matches ClientsRoutes req'"
  shows "handle d rt req =
           (middleware_chain @ [NotFoundHandler],
            Sent \<lparr>status = 404,
                  body = (if http_method req' = ''HEAD'' then None
                          else Some [(''success'', JBool False),
                                     (''message'', JStr ''Route not found''),
                                     (''requestId'', JStr rid)])\<rparr>)"
proof -
  have logged: "dispatch d rt logging_layers None req = (logging_layers, Unhandled None req')"
    using assms(1) by (rule loggers_pass)
  have sent: "res_json req' (snd (notFoundHandler req')) =
                Respond \<lparr>status = 404,
                         body = (if http_method req' = ''HEAD'' then None
                                 else body (snd (notFoundHandler req')))\<rparr>"
    using res_json_client_error [of "snd (notFoundHandler req')" req']
    by (simp add: not_found_response)
  have "dispatch d rt (Cors # ExpressJson # ExpressUrlencoded # route_layers) None req'
          = ([Cors, ExpressJson, ExpressUrlencoded, NotFoundHandler],
             Sent \<lparr>status = 404,
                   body = (if http_method req' = ''HEAD'' then None
                           else body (snd (notFoundHandler req')))\<rparr>)"
    using assms(3,5-7) parsers_pass [OF assms(4)] sent
    by (simp add: cors_def route_layers_def)
  with logged
  have "handle d rt req =
          (logging_layers @ [Cors, ExpressJson, ExpressUrlencoded, NotFoundHandler],
           Sent \<lparr>status = 404,
                 body = (if http_method req' = ''HEAD'' then None
                         else body (snd (notFoundHandler req')))\<rparr>)"
    by (simp add: handle_def app_stack_logging dispatch_append)
  with assms(2) show ?thesis
    by (simp add: chain_logging not_found_response)
qed

text \<open>The amended C5 on a \<open>GET\<close> request to \<open>/api/unknown\<close>.\<close>

theorem unmatched_route_404_witness:
  "handle stub_deps dev_runtime unknown_path =
     (middleware_chain @ [NotFoundHandler],
      Sent \<lparr>status = 404,
            body = Some [(''success'', JBool False),
                         (''message'', JStr ''Route not found''),
                         (''requestId'', JStr ''req-1'')]\<rparr>)"
proof -
  have passed: "loggers stub_deps unknown_path = Next (tagged unknown_path)"
    by (simp add: loggers_def server_samples)
  have id: "requestId (tagged unknown_path) = Some ''req-1''"
    by (simp add: server_samples)
  have get: "http_method (tagged unknown_path) \<noteq> ''OPTIONS''"
    "http_method (tagged unknown_path) \<noteq> ''HEAD''"
    by (simp_all add: server_samples)
  have accepted: "parsers_accept (tagged unknown_path)"
    by (simp add: parsers_accept_def server_samples)
  have unmatched: "\<not> layer_matches HealthCheck (tagged unknown_path)"
    "\<not> layer_matches AuthRoutes (tagged unknown_path)"
    "\<not> layer_matches ClientsRoutes (tagged unknown_path)"
    by (simp_all add: server_samples stack_defs)
  from unmatched_route_404 [OF passed id get(1) accepted unmatched, of dev_runtime] get(2)
  show ?thesis by simp
qed

subsection \<open>Body size\<close>

text \<open>
  Claim C8, as stated, asks that every POST request with a body above the limit is
  rejected with status 413 before a route handler runs. It does not hold: the two
  registered parsers read JSON and URL-encoded bodies only, so an 11 MB body of another
  media type passes both and reaches the router.
\<close>

theorem large_text_body_counterexample:
  "http_method large_text_post = ''POST''
   \<and> body_length large_text_post = Some (11 * 1024 * 1024)
   \<and> handle stub_deps dev_runtime large_text_post
       = (middleware_chain @ [AuthRoutes], Sent stub_response)
   \<and> status stub_response = 200"
  by (simp add: server_samples stack_defs middleware_chain_def)

text \<open>
  Claim C8, amended: every request that the logging middleware pass on and that is no
  preflight (\<open>OPTIONS\<close>) request, so that it comes to body parsing, is treated as
  follows. When it has a JSON or URL-encoded body, in a character set and content
  encoding the parser accepts, that is longer than the limit of 10 MB
  (\<open>10 * 2^20\<close> bytes), the error handler answers with status 413 and no route handler
  runs. When its body is of another media type, both parsers pass it on unread,
  whatever its length, and the request goes on to the routes.
\<close>

theorem oversized_parsed_body_413:
  "(loggers d req = Next req' \<and> http_method req' \<noteq> ''OPTIONS''
      \<and> (content_type req' = ApplicationJson \<or> content_type req' = FormUrlencoded)
      \<and> unsupported_coding req' = False
      \<and> body_length req' = Some n \<and> body_limit < n
     \<longrightarrow> (\<exists>tr resp. handle d rt req = (tr, Sent resp) \<and> status resp = 413
            \<and> (\<forall>l \<in> set tr. \<not> is_route_handler l)))
   \<and> (loggers d req = Next req' \<and> http_method req' \<noteq> ''OPTIONS''
      \<and> content_type req' = OtherMedia
     \<longrightarrow> handle d rt req =
           (middleware_chain @ fst (dispatch d rt route_layers None req'),
            snd (dispatch d rt route_layers None req')))"
proof (intro conjI impI)
  assume hyp: "loggers d req = Next req' \<and> http_method req' \<noteq> ''OPTIONS''
      \<and> (content_type req' = ApplicationJson \<or> content_type req' = FormUrlencoded)
      \<and> unsupported_coding req' = False
      \<and> body_length req' = Some n \<and> body_limit < n"
  then have logged: "dispatch d rt logging_layers None req = (logging_layers, Unhandled None req')"
    by (simp add: loggers_pass)
  from hyp oversized_body_fails [of req' n d rt]
  obtain tr resp where
    parsed: "dispatch d rt (ExpressJson # ExpressUrlencoded # route_layers) None req'
               = (tr, Sent resp)"
    and st: "status resp = 413"
    and tr: "set tr \<subseteq> {ExpressJson, ExpressUrlencoded, ErrorHandler}"
    by blast
  from hyp parsed
  have "dispatch d rt (Cors # ExpressJson # ExpressUrlencoded # route_layers) None req'
          = (Cors # tr, Sent resp)"
    by (simp add: cors_def)
  with logged have "handle d rt req = (logging_layers @ Cors # tr, Sent resp)"
    by (simp add: handle_def app_stack_logging dispatch_append)
  moreover have "\<forall>l \<in> set (logging_layers @ Cors # tr). \<not> is_route_handler l"
    using tr by (auto simp add: logging_layers_def)
  ultimately show "\<exists>tr resp. handle d rt req = (tr, Sent resp) \<and> status resp = 413
            \<and> (\<forall>l \<in> set tr. \<not> is_route_handler l)"
    using st by blast
next
  assume hyp: "loggers d req = Next req' \<and> http_method req' \<noteq> ''OPTIONS''
      \<and> content_type req' = OtherMedia"
  then have logged: "dispatch d rt logging_layers None req = (logging_layers, Unhandled None req')"
    by (simp add: loggers_pass)
  obtain tr r where routes: "dispatch d rt route_layers None req' = (tr, r)"
    by (cases "dispatch d rt route_layers None req'")
  from hyp other_media_passes [of req'] routes
  have "dispatch d rt (Cors # ExpressJson # ExpressUrlencoded # route_layers) None req'
          = ([Cors, ExpressJson, ExpressUrlencoded] @ tr, r)"
    by (simp add: cors_def)
  with logged
  have "handle d rt req = (logging_layers @ [Cors, ExpressJson, ExpressUrlencoded] @ tr, r)"
    by (simp add: handle_def app_stack_logging dispatch_append)
  with routes show "handle d rt req =
           (middleware_chain @ fst (dispatch d rt route_layers None req'),
            snd (dispatch d rt route_layers None req'))"
    by (simp add: chain_logging)
qed

text \<open>
  The amended C8 on an 11 MB JSON body and on an 11 MB body of another media type, both
  posted to the login route.
\<close>

theorem oversized_parsed_body_413_witness:
  "(\<exists>tr resp. handle stub_deps dev_runtime large_json_post = (tr, Sent resp)
       \<and> status resp = 413 \<and> (\<forall>l \<in> set tr. \<not> is_route_handler l))
   \<and> handle stub_deps dev_runtime large_text_post =
       (middleware_chain
          @ fst (dispatch stub_deps dev_runtime route_layers None (tagged large_text_post)),
        snd (dispatch stub_deps dev_runtime route_layers None (tagged large_text_post)))"
proof -
  have json:
    "loggers stub_deps large_json_post = Next (tagged large_json_post)
     \<and> http_method (tagged large_json_post) \<noteq> ''OPTIONS''
     \<and> (content_type (tagged large_json_post) = ApplicationJson
        \<or> content_type (tagged large_json_post) = FormUrlencoded)
     \<and> unsupported_coding (tagged large_json_post) = False
     \<and> body_length (tagged large_json_post) = Some (11 * 1024 * 1024)
     \<and> body_limit < 11 * 1024 * 1024"
    by (simp add: loggers_def server_samples body_limit_def)
  have other:
    "loggers stub_deps large_text_post = Next (tagged large_text_post)
     \<and> http_method (tagged large_text_post) \<noteq> ''OPTIONS''
     \<and> content_type (tagged large_text_post) = OtherMedia"
    by (simp add: loggers_def server_samples)
  from oversized_parsed_body_413
         [where d = stub_deps and req = large_json_post and req' = "tagged large_json_post"
            and n = "11 * 1024 * 1024" and rt = dev_runtime]
       oversized_parsed_body_413
         [where d = stub_deps and req = large_text_post and req' = "tagged large_text_post"
            and rt = dev_runtime]
       json other
  show ?thesis by blast
qed

end
